theory Spec2Isabelle
  imports Main "HOL-Library.Word" "HOL-Library.Signed_Division" "HOL-Library.Multiset"
begin

section \<open>The stopwatch of stopwatch.h\<close>

text \<open>
  \<^verbatim>\<open>Stopwatch<Duration, Clock>\<close> keeps a \<^verbatim>\<open>std::vector<Clock::time_point>\<close> and a mode
  flag. Its iterator holds two raw pointers into the vector's storage and a mode of its own.

  \<^item> A time point is its tick count since the clock's epoch, a 64-bit signed value
    held as an \<open>int\<close>. Arithmetic on ticks is 64-bit: every difference and product is
    reduced by \<open>int64_wrap\<close> to the two's complement value of its low 64 bits, which is
    what the usual targets compute where C++ leaves signed overflow undefined.
  \<^item> A pointer to a time point is an address counted in time points, so that pointer
    difference is subtraction. \<^verbatim>\<open>ptrdiff_t\<close> values are \<open>int\<close>.
  \<^item> A vector is its element list together with the address of its storage, the value
    of \<^verbatim>\<open>data()\<close>, null when it holds none. Where the C++ allocates storage, the
    model takes the address the allocator returns as an argument. On single stopwatch
    values that address is free; the commands on a system of stopwatches accept only an
    address that is not null and not in use. Capacity and allocation failure
    (\<^verbatim>\<open>std::bad_alloc\<close>) are not modelled.
  \<^item> The index of \<^verbatim>\<open>operator[]\<close> has the template's \<^verbatim>\<open>Integer\<close> type, given by its
    signedness and width: \<^verbatim>\<open>index + 1\<close> is computed in that type after integral
    promotion and wraps there, and only then is converted to the 64-bit \<^verbatim>\<open>size_t\<close>. An
    index that \<^verbatim>\<open>std::vector\<close> receives is a 64-bit word.
  \<^item> The two template parameters enter only through \<^verbatim>\<open>duration_cast\<close>: as the ratio
    of the clock's period to the duration unit's period, and as the width of the
    duration unit's representation, a signed integer type of at most 64 bits, so that
    the cast computes in 64 bits (\<^verbatim>\<open>intmax_t\<close>) and then narrows.
\<close>

type_synonym time_point = int
type_synonym addr = int
type_synonym size_t = "64 word"
type_synonym ptrdiff_t = int

text \<open>
  \<open>OutOfRange\<close> is \<^verbatim>\<open>std::out_of_range\<close>, thrown by \<^verbatim>\<open>vector::at\<close>; \<open>BaseMismatch\<close> is
  \<^verbatim>\<open>std::runtime_error("Iterator base mismatch.")\<close>; \<open>Undefined\<close> stands for an
  unchecked read outside the vector (\<^verbatim>\<open>operator[]\<close>, \<^verbatim>\<open>front()\<close>), which C++ leaves
  undefined.
\<close>

datatype failure = OutOfRange | BaseMismatch | Undefined

record vector =
  data_ptr :: addr
  elems :: "time_point list"

record stopwatch =
  measurements :: vector
  sw_mode :: bool

record iterator =
  base :: addr
  ptr :: addr
  iter_mode :: bool

definition SPLIT_MODE :: bool where
  "SPLIT_MODE = True"

definition ELAPSE_MODE :: bool where
  "ELAPSE_MODE = False"

subsection \<open>Integer types\<close>

text \<open>
  An integral type is its signedness and its width in bits. \<open>fits\<close> is its range and
  \<open>wrap\<close> the value that arithmetic in the type yields for the exact result \<open>k\<close>.
  Integral promotion turns every type narrower than the 32-bit \<^verbatim>\<open>int\<close> into \<^verbatim>\<open>int\<close>.
\<close>

datatype integer_type = Signed nat | Unsigned nat

fun fits :: "integer_type \<Rightarrow> int \<Rightarrow> bool" where
  "fits (Signed w) k \<longleftrightarrow> - (2 ^ (w - 1)) \<le> k \<and> k < 2 ^ (w - 1)"
| "fits (Unsigned w) k \<longleftrightarrow> 0 \<le> k \<and> k < 2 ^ w"

fun wrap :: "integer_type \<Rightarrow> int \<Rightarrow> int" where
  "wrap (Signed w) k = signed_take_bit (w - 1) k"
| "wrap (Unsigned w) k = take_bit w k"

fun promote :: "integer_type \<Rightarrow> integer_type" where
  "promote (Signed w) = (if w < 32 then Signed 32 else Signed w)"
| "promote (Unsigned w) = (if w < 32 then Signed 32 else Unsigned w)"

definition int64_wrap :: "int \<Rightarrow> int" where
  "int64_wrap k = wrap (Signed 64) k"

subsection \<open>std::chrono::duration_cast\<close>

text \<open>
  \<open>cf_num / cf_den\<close> is the clock period divided by the duration unit's period
  (1/1000000 from nanoseconds to milliseconds) and \<open>rep_bits\<close> the width of the
  duration unit's signed representation. The cast computes in 64 bits: it returns the
  count when the ratio is 1, divides when the numerator is 1, multiplies when the
  denominator is 1, and multiplies and then divides otherwise. C++ division truncates
  towards zero, which is \<open>sdiv\<close>. The result is converted to the representation.
\<close>

record conversion =
  cf_num :: int
  cf_den :: int
  rep_bits :: nat

definition duration_cast :: "conversion \<Rightarrow> int \<Rightarrow> int" where
  "duration_cast cf d =
     wrap (Signed (rep_bits cf))
       (if cf_num cf = 1 \<and> cf_den cf = 1 then d
        else if cf_num cf = 1 then d sdiv cf_den cf
        else if cf_den cf = 1 then int64_wrap (d * cf_num cf)
        else int64_wrap (d * cf_num cf) sdiv cf_den cf)"

text \<open>
  What the specification calls whole-unit truncation: \<open>r\<close> is the number of whole units
  in the tick difference \<open>d\<close>, dropping the fraction towards zero.
\<close>

definition whole_units :: "conversion \<Rightarrow> int \<Rightarrow> int \<Rightarrow> bool" where
  "whole_units cf d r \<longleftrightarrow>
     \<bar>r\<bar> * cf_den cf \<le> \<bar>d\<bar> * cf_num cf \<and> \<bar>d\<bar> * cf_num cf < (\<bar>r\<bar> + 1) * cf_den cf \<and>
     (r = 0 \<or> sgn r = sgn d)"

subsection \<open>std::vector\<close>

definition vec_size :: "vector \<Rightarrow> nat" where
  "vec_size v = length (elems v)"

definition vec_empty :: "vector \<Rightarrow> bool" where
  "vec_empty v \<longleftrightarrow> elems v = []"

definition vec_at :: "vector \<Rightarrow> size_t \<Rightarrow> failure + time_point" where
  "vec_at v n = (if unat n < vec_size v then Inr (elems v ! unat n) else Inl OutOfRange)"

definition vec_index :: "vector \<Rightarrow> size_t \<Rightarrow> failure + time_point" where
  "vec_index v n = (if unat n < vec_size v then Inr (elems v ! unat n) else Inl Undefined)"

definition vec_front :: "vector \<Rightarrow> failure + time_point" where
  "vec_front v = (case elems v of [] \<Rightarrow> Inl Undefined | x # _ \<Rightarrow> Inr x)"

text \<open>\<^verbatim>\<open>emplace_back\<close>: \<open>p\<close> is the storage afterwards (the old one unless it reallocates).\<close>

definition vec_emplace_back :: "addr \<Rightarrow> time_point \<Rightarrow> vector \<Rightarrow> vector" where
  "vec_emplace_back p t v = \<lparr>data_ptr = p, elems = elems v @ [t]\<rparr>"

definition vec_clear :: "vector \<Rightarrow> vector" where
  "vec_clear v = v\<lparr>elems := []\<rparr>"

text \<open>
  \<^verbatim>\<open>std::set_union\<close> over two ranges into a back inserter: the loop runs while both
  ranges have elements and the rest of each range is copied afterwards.
\<close>

fun set_union :: "time_point list \<Rightarrow> time_point list \<Rightarrow> time_point list" where
  "set_union [] ys = ys"
| "set_union xs [] = xs"
| "set_union (x # xs) (y # ys) =
     (if x < y then x # set_union xs (y # ys)
      else if y < x then y # set_union (x # xs) ys
      else x # set_union xs ys)"

subsection \<open>Stopwatch\<close>


text \<open>
  The constructors: \<open>p\<close> is the storage that \<^verbatim>\<open>reserve\<close> obtains. The first reserves
  two time points. The second reserves \<^verbatim>\<open>res + 1\<close>, a \<^verbatim>\<open>size_t\<close> sum that is \<open>0\<close> for
  the largest \<open>res\<close>; \<^verbatim>\<open>reserve(0)\<close> obtains nothing and the vector keeps the null
  storage it is created with.
\<close>

definition Stopwatch :: "addr \<Rightarrow> bool \<Rightarrow> stopwatch" where
  "Stopwatch p mode_in = \<lparr>measurements = \<lparr>data_ptr = p, elems = []\<rparr>, sw_mode = mode_in\<rparr>"


definition empty_sw :: "stopwatch \<Rightarrow> bool" where
  "empty_sw sw \<longleftrightarrow> vec_size (measurements sw) < 2"

definition size_sw :: "stopwatch \<Rightarrow> nat" where
  "size_sw sw = (let sz = vec_size (measurements sw) in if sz > 1 then sz - 1 else 0)"

definition mode_sw :: "stopwatch \<Rightarrow> bool" where
  "mode_sw sw = sw_mode sw"

definition set_mode :: "bool \<Rightarrow> stopwatch \<Rightarrow> stopwatch" where
  "set_mode m sw = sw\<lparr>sw_mode := m\<rparr>"

text \<open>\<^verbatim>\<open>record()\<close>: \<open>now\<close> is what \<^verbatim>\<open>Clock::now()\<close> returns.\<close>

definition record_sw :: "addr \<Rightarrow> time_point \<Rightarrow> stopwatch \<Rightarrow> stopwatch" where
  "record_sw p now sw = sw\<lparr>measurements := vec_emplace_back p now (measurements sw)\<rparr>"

definition clear_sw :: "stopwatch \<Rightarrow> stopwatch" where
  "clear_sw sw = sw\<lparr>measurements := vec_clear (measurements sw)\<rparr>"

text \<open>
  \<^verbatim>\<open>operator[]\<close> of the stopwatch, the specification's \<^verbatim>\<open>at\<close>, for an index of type
  \<open>T\<close>. \<^verbatim>\<open>at\<close> gets \<^verbatim>\<open>index + 1\<close> as computed in the promoted type, \<^verbatim>\<open>operator[]\<close> of the
  vector gets the index itself, each converted to \<^verbatim>\<open>size_t\<close>.
\<close>

definition operator_index ::
  "integer_type \<Rightarrow> conversion \<Rightarrow> stopwatch \<Rightarrow> int \<Rightarrow> failure + int" where
  "operator_index T cf sw index =
     (case vec_at (measurements sw) (word_of_int (wrap (promote T) (index + 1))) of
        Inl e \<Rightarrow> Inl e
      | Inr end_tp \<Rightarrow>
          (case (if sw_mode sw = SPLIT_MODE
                 then vec_index (measurements sw) (word_of_int index)
                 else vec_front (measurements sw)) of
             Inl e \<Rightarrow> Inl e
           | Inr begin_tp \<Rightarrow> Inr (duration_cast cf (int64_wrap (end_tp - begin_tp)))))"

text \<open>\<^verbatim>\<open>data(index)\<close>, the specification's \<^verbatim>\<open>rawSnapshotAt\<close>, and \<^verbatim>\<open>data_size()\<close>.\<close>

definition data_at :: "stopwatch \<Rightarrow> size_t \<Rightarrow> failure + time_point" where
  "data_at sw index = vec_at (measurements sw) index"

definition data_size :: "stopwatch \<Rightarrow> nat" where
  "data_size sw = vec_size (measurements sw)"

definition begin_sw :: "stopwatch \<Rightarrow> iterator" where
  "begin_sw sw =
     (let b = data_ptr (measurements sw)
      in \<lparr>base = b, ptr = b, iter_mode = sw_mode sw\<rparr>)"

text \<open>
  \<^verbatim>\<open>end()\<close>: \<open>fin\<close> is the position of the vector iterator whose address is taken, the
  first position of an empty vector and the last element otherwise.
\<close>

definition end_sw :: "stopwatch \<Rightarrow> iterator" where
  "end_sw sw =
     (let b = data_ptr (measurements sw);
          fin = (if vec_empty (measurements sw) then 0
                 else int (vec_size (measurements sw)) - 1)
      in \<lparr>base = b, ptr = b + fin, iter_mode = sw_mode sw\<rparr>)"

text \<open>
  \<^verbatim>\<open>operator+=\<close>: \<open>p\<close> is the storage of \<^verbatim>\<open>new_measures\<close>, which the swap hands to
  this stopwatch. The union is complete before the swap, so \<open>other\<close> is read as a
  value also when it is the receiver itself.
\<close>

definition plus_assign :: "addr \<Rightarrow> stopwatch \<Rightarrow> stopwatch \<Rightarrow> stopwatch" where
  "plus_assign p sw other =
     (let new_measures =
        \<lparr>data_ptr = p,
         elems = set_union (elems (measurements sw)) (elems (measurements other))\<rparr>
      in sw\<lparr>measurements := new_measures\<rparr>)"

text \<open>The copy constructor: the elements and the mode, in storage \<open>p\<close> of its own.\<close>

definition copy_sw :: "addr \<Rightarrow> stopwatch \<Rightarrow> stopwatch" where
  "copy_sw p sw = sw\<lparr>measurements := \<lparr>data_ptr = p, elems = elems (measurements sw)\<rparr>\<rparr>"


text \<open>
  \<^verbatim>\<open>operator+\<close>: \<^verbatim>\<open>temp\<close> copies the receiver, \<^verbatim>\<open>temp += other\<close> returns a reference to
  it, and the result is a copy of that.
\<close>

definition plus_sw :: "addr \<Rightarrow> addr \<Rightarrow> addr \<Rightarrow> stopwatch \<Rightarrow> stopwatch \<Rightarrow> stopwatch" where
  "plus_sw p1 p2 p3 sw other =
     (let temp = copy_sw p1 sw
      in copy_sw p3 (plus_assign p2 temp other))"

subsection \<open>Stopwatch objects in a store\<close>

text \<open>
  The member functions act on objects, and \<^verbatim>\<open>a += a\<close> passes the receiver as the
  argument. A store maps object names to their states. \<open>plus_assign_at\<close> is \<^verbatim>\<open>a += b\<close>.
  \<open>plus_at\<close> is \<^verbatim>\<open>a + b\<close>: the local \<^verbatim>\<open>temp\<close> is the object \<open>t\<close>, constructed as a copy
  of the receiver; \<^verbatim>\<open>temp += other\<close> is the in-place operation on \<open>t\<close>; the value
  returned is a copy of \<open>t\<close>.
\<close>

type_synonym store = "nat \<Rightarrow> stopwatch"

definition plus_assign_at :: "addr \<Rightarrow> nat \<Rightarrow> nat \<Rightarrow> store \<Rightarrow> store" where
  "plus_assign_at p a b \<sigma> = \<sigma>(a := plus_assign p (\<sigma> a) (\<sigma> b))"

definition plus_at ::
  "addr \<Rightarrow> addr \<Rightarrow> addr \<Rightarrow> nat \<Rightarrow> nat \<Rightarrow> nat \<Rightarrow> store \<Rightarrow> stopwatch \<times> store" where
  "plus_at p1 p2 p3 t a b \<sigma> =
     (let \<sigma>1 = \<sigma>(t := copy_sw p1 (\<sigma> a));
          \<sigma>2 = plus_assign_at p2 t b \<sigma>1
      in (copy_sw p3 (\<sigma>2 t), \<sigma>2))"

subsection \<open>Sequences of operations\<close>

datatype operation =
  Record addr time_point
  | Clear
  | SetMode bool
  | MergeInto addr stopwatch

fun apply_operation :: "stopwatch \<Rightarrow> operation \<Rightarrow> stopwatch" where
  "apply_operation sw (Record p now) = record_sw p now sw"
| "apply_operation sw Clear = clear_sw sw"
| "apply_operation sw (SetMode m) = set_mode m sw"
| "apply_operation sw (MergeInto p other) = plus_assign p sw other"

definition run :: "stopwatch \<Rightarrow> operation list \<Rightarrow> stopwatch" where
  "run sw ops = foldl apply_operation sw ops"

subsection \<open>Stopwatch::iterator\<close>

definition iter_eq :: "iterator \<Rightarrow> iterator \<Rightarrow> bool" where
  "iter_eq it other \<longleftrightarrow> ptr it = ptr other \<and> base it = base other"

definition iter_ne :: "iterator \<Rightarrow> iterator \<Rightarrow> bool" where
  "iter_ne it other \<longleftrightarrow> ptr it \<noteq> ptr other \<or> base it \<noteq> base other"

definition iter_lt :: "iterator \<Rightarrow> iterator \<Rightarrow> bool" where
  "iter_lt it other \<longleftrightarrow> ptr other - ptr it > 0 \<and> base it = base other"

definition iter_le :: "iterator \<Rightarrow> iterator \<Rightarrow> bool" where
  "iter_le it other \<longleftrightarrow> ptr other - ptr it \<ge> 0 \<and> base it = base other"

definition iter_gt :: "iterator \<Rightarrow> iterator \<Rightarrow> bool" where
  "iter_gt it other \<longleftrightarrow> ptr it - ptr other > 0 \<and> base it = base other"

definition iter_ge :: "iterator \<Rightarrow> iterator \<Rightarrow> bool" where
  "iter_ge it other \<longleftrightarrow> ptr it - base other \<ge> 0 \<and> base it = base other"


definition iter_minus_assign :: "ptrdiff_t \<Rightarrow> iterator \<Rightarrow> iterator" where
  "iter_minus_assign dist it = it\<lparr>ptr := ptr it - dist\<rparr>"


definition iter_minus :: "iterator \<Rightarrow> ptrdiff_t \<Rightarrow> iterator" where
  "iter_minus it dist = (let temp = it in iter_minus_assign dist temp)"

text \<open>\<^verbatim>\<open>operator-(const iterator&)\<close>, the specification's \<^verbatim>\<open>distanceTo\<close>.\<close>

definition iter_diff :: "iterator \<Rightarrow> iterator \<Rightarrow> failure + ptrdiff_t" where
  "iter_diff it other =
     (if base it \<noteq> base other then Inl BaseMismatch else Inr (ptr it - ptr other))"

subsection \<open>A system of stopwatches and their storage\<close>












subsection \<open>Words of the specification\<close>

text \<open>The clock difference between snapshot \<open>i\<close> and snapshot \<open>j\<close> of a stopwatch.\<close>

definition clock_difference :: "stopwatch \<Rightarrow> nat \<Rightarrow> nat \<Rightarrow> int" where
  "clock_difference sw i j = elems (measurements sw) ! j - elems (measurements sw) ! i"

section \<open>Properties\<close>

subsection \<open>Truncation of the duration cast\<close>

lemma sdiv_abs:
  fixes d n m :: int
  assumes "0 < n" "0 < m"
  shows "(d * n) sdiv m = sgn d * ((\<bar>d\<bar> * n) div m)"
  using assms by (simp add: signed_divide_int_def sgn_mult abs_mult)

lemma sdiv_whole_units:
  assumes "0 < cf_num cf" "0 < cf_den cf"
  shows "whole_units cf d ((d * cf_num cf) sdiv cf_den cf)"
proof -
  let ?q = "(\<bar>d\<bar> * cf_num cf) div cf_den cf"
  have q0: "0 \<le> ?q" using assms by (simp add: pos_imp_zdiv_nonneg_iff)
  have r: "(d * cf_num cf) sdiv cf_den cf = sgn d * ?q" by (rule sdiv_abs [OF assms])
  have a: "\<bar>sgn d * ?q\<bar> = (if d = 0 then 0 else ?q)"
    using q0 by (simp add: abs_mult)
  have eq: "?q * cf_den cf = \<bar>d\<bar> * cf_num cf - (\<bar>d\<bar> * cf_num cf) mod cf_den cf"
    by (simp add: minus_mod_eq_div_mult)
  have m0: "0 \<le> (\<bar>d\<bar> * cf_num cf) mod cf_den cf"
    using assms(2) by (rule pos_mod_sign)
  have m1: "(\<bar>d\<bar> * cf_num cf) mod cf_den cf < cf_den cf"
    using assms(2) by (rule pos_mod_bound)
  have lo: "?q * cf_den cf \<le> \<bar>d\<bar> * cf_num cf"
    using eq m0 by linarith
  have hi: "\<bar>d\<bar> * cf_num cf < (?q + 1) * cf_den cf"
    using eq m1 by (simp add: distrib_right)
  have s: "sgn d * ?q = 0 \<or> sgn (sgn d * ?q) = sgn d"
    using q0 by (cases "?q = 0") (simp_all add: sgn_mult)
  show ?thesis
    unfolding whole_units_def r a using lo hi s assms by (cases "d = 0") simp_all
qed

lemma wrap_fits: "fits T k \<Longrightarrow> wrap T k = k"
  by (cases T) (simp_all add: signed_take_bit_int_eq_self_iff take_bit_int_eq_self_iff)

lemma duration_cast_exact:
  assumes "fits (Signed 64) (d * cf_num cf)"
    and "fits (Signed (rep_bits cf)) ((d * cf_num cf) sdiv cf_den cf)"
  shows "duration_cast cf d = (d * cf_num cf) sdiv cf_den cf"
proof -
  have w: "int64_wrap (d * cf_num cf) = d * cf_num cf"
    unfolding int64_wrap_def using assms(1) by (rule wrap_fits)
  have "(if cf_num cf = 1 \<and> cf_den cf = 1 then d
         else if cf_num cf = 1 then d sdiv cf_den cf
         else if cf_den cf = 1 then int64_wrap (d * cf_num cf)
         else int64_wrap (d * cf_num cf) sdiv cf_den cf) = (d * cf_num cf) sdiv cf_den cf"
    by (simp add: w)
  then show ?thesis
    using wrap_fits [OF assms(2)] by (simp add: duration_cast_def)
qed

subsection \<open>Indexed access\<close>

lemma unat_word_of_int:
  assumes "0 \<le> k" and "k < 2 ^ 64"
  shows "unat (word_of_int k :: size_t) = nat k"
  using assms by (simp add: unsigned_of_int take_bit_int_eq_self)

lemma index_conversions:
  assumes "data_size sw \<le> 2 ^ 64" and "0 \<le> i" and "i < int (size_sw sw)"
    and "fits (promote T) (i + 1)"
  shows "unat (word_of_int (wrap (promote T) (i + 1)) :: size_t) = nat i + 1"
    and "unat (word_of_int i :: size_t) = nat i"
    and "nat i + 1 < length (elems (measurements sw))"
proof -
  from assms(2,3) show len: "nat i + 1 < length (elems (measurements sw))"
    by (simp add: size_sw_def vec_size_def Let_def split: if_splits)
  with assms(1) have "nat i + 1 < 2 ^ 64"
    by (simp add: data_size_def vec_size_def)
  with assms(2) have small: "i + 1 < 2 ^ 64"
    by (simp add: nat_less_iff flip: nat_add_distrib)
  have "unat (word_of_int (i + 1) :: size_t) = nat (i + 1)"
    using assms(2) small by (intro unat_word_of_int) simp_all
  then show "unat (word_of_int (wrap (promote T) (i + 1)) :: size_t) = nat i + 1"
    using wrap_fits [OF assms(4)] assms(2) by (simp add: nat_add_distrib)
  show "unat (word_of_int i :: size_t) = nat i"
    using assms(2) small by (intro unat_word_of_int) simp_all
qed

lemma vec_front_nonempty:
  "elems v \<noteq> [] \<Longrightarrow> vec_front v = Inr (elems v ! 0)"
  by (cases "elems v") (simp_all add: vec_front_def)

text \<open>
  C1. For an index \<open>i\<close> below \<^verbatim>\<open>size()\<close>, \<^verbatim>\<open>operator[]\<close> returns the clock difference
  between snapshot \<open>i\<close> and snapshot \<open>i + 1\<close> in split mode, and between snapshot \<open>0\<close> and
  snapshot \<open>i + 1\<close> in elapse mode, converted to the duration unit; the conversion keeps
  the whole units of the difference and drops the fraction. This holds where the code's
  arithmetic is exact: \<open>i + 1\<close> is a value of the promoted index type, the tick
  difference and its product with the ratio's numerator are 64-bit values, and the
  result is a value of the duration's representation. The inputs are those the code can
  hold: the index is a value of its type, the time points are 64-bit values, the vector
  has at most \<open>2 ^ 64\<close> elements and the period ratio is positive.
\<close>

theorem operator_index_computes:
  fixes sw :: stopwatch and i :: int and T :: integer_type and cf :: conversion
  defines "d \<equiv> clock_difference sw (if sw_mode sw = SPLIT_MODE then nat i else 0) (nat i + 1)"
  assumes "data_size sw \<le> 2 ^ 64" and "0 \<le> i" and "i < int (size_sw sw)"
    and "fits (promote T) (i + 1)"
    and "0 < cf_num cf" and "0 < cf_den cf"
    and "fits (Signed 64) d" and "fits (Signed 64) (d * cf_num cf)"
    and "fits (Signed (rep_bits cf)) ((d * cf_num cf) sdiv cf_den cf)"
    and "fits T i" and "list_all (fits (Signed 64)) (elems (measurements sw))"
  shows "operator_index T cf sw i = Inr ((d * cf_num cf) sdiv cf_den cf) \<and>
         whole_units cf d ((d * cf_num cf) sdiv cf_den cf)"
proof -
  let ?m = "elems (measurements sw)"
  note conv = index_conversions [OF assms(2-5)]
  from conv(3) have "?m \<noteq> []" by auto
  then have front: "vec_front (measurements sw) = Inr (?m ! 0)"
    by (rule vec_front_nonempty)
  have diff: "int64_wrap (?m ! (nat i + 1) -
      (if sw_mode sw = SPLIT_MODE then ?m ! nat i else ?m ! 0)) = d"
    using wrap_fits [OF assms(8)]
    by (cases "sw_mode sw = SPLIT_MODE")
      (simp_all add: int64_wrap_def d_def clock_difference_def)
  have "operator_index T cf sw i = Inr (duration_cast cf (int64_wrap (?m ! (nat i + 1) -
            (if sw_mode sw = SPLIT_MODE then ?m ! nat i else ?m ! 0))))"
    using conv front
    by (simp add: operator_index_def vec_at_def vec_index_def vec_size_def)
  then have "operator_index T cf sw i = Inr ((d * cf_num cf) sdiv cf_den cf)"
    using duration_cast_exact [OF assms(9,10)] by (simp only: diff)
  then show ?thesis
    using sdiv_whole_units [OF assms(6,7)] by simp
qed

theorem operator_index_computes_witness:
  "data_size \<lparr>measurements = \<lparr>data_ptr = 4096, elems = [0, 10000000, 25999999]\<rparr>,
      sw_mode = SPLIT_MODE\<rparr> \<le> 2 ^ 64 \<and>
   (1 :: int) < int (size_sw \<lparr>measurements = \<lparr>data_ptr = 4096,
      elems = [0, 10000000, 25999999]\<rparr>, sw_mode = SPLIT_MODE\<rparr>) \<and>
   fits (promote (Unsigned 64)) (1 + 1) \<and> fits (Unsigned 64) 1 \<and>
   list_all (fits (Signed 64)) (elems (measurements \<lparr>measurements = \<lparr>data_ptr = 4096,
      elems = [0, 10000000, 25999999]\<rparr>, sw_mode = SPLIT_MODE\<rparr>)) \<and>
   fits (Signed 64) (clock_difference \<lparr>measurements = \<lparr>data_ptr = 4096,
      elems = [0, 10000000, 25999999]\<rparr>, sw_mode = SPLIT_MODE\<rparr> 1 2) \<and>
   operator_index (Unsigned 64) \<lparr>cf_num = 1, cf_den = 1000000, rep_bits = 64\<rparr>
     \<lparr>measurements = \<lparr>data_ptr = 4096, elems = [0, 10000000, 25999999]\<rparr>,
      sw_mode = SPLIT_MODE\<rparr> 1 = Inr 15 \<and>
   operator_index (Unsigned 64) \<lparr>cf_num = 1, cf_den = 1000000, rep_bits = 64\<rparr>
     \<lparr>measurements = \<lparr>data_ptr = 4096, elems = [0, 10000000, 25999999]\<rparr>,
      sw_mode = ELAPSE_MODE\<rparr> 1 = Inr 25"
  using operator_index_computes [where sw = "\<lparr>measurements = \<lparr>data_ptr = 4096,
      elems = [0, 10000000, 25999999]\<rparr>, sw_mode = SPLIT_MODE\<rparr>" and i = 1
      and T = "Unsigned 64" and cf = "\<lparr>cf_num = 1, cf_den = 1000000, rep_bits = 64\<rparr>"]
    operator_index_computes [where sw = "\<lparr>measurements = \<lparr>data_ptr = 4096,
      elems = [0, 10000000, 25999999]\<rparr>, sw_mode = ELAPSE_MODE\<rparr>" and i = 1
      and T = "Unsigned 64" and cf = "\<lparr>cf_num = 1, cf_den = 1000000, rep_bits = 64\<rparr>"]
  by (simp add: data_size_def size_sw_def vec_size_def clock_difference_def
      SPLIT_MODE_def ELAPSE_MODE_def signed_divide_int_def)

text \<open>
  Outside those ranges the code's arithmetic wraps, and so does the model: a tick
  difference beyond 64 bits, a result beyond a 32-bit representation, a product with the
  numerator beyond 64 bits, and an index whose successor leaves its type.
\<close>

lemma tick_difference_wraps:
  "operator_index (Unsigned 64) \<lparr>cf_num = 1, cf_den = 1000000, rep_bits = 64\<rparr>
     \<lparr>measurements = \<lparr>data_ptr = 4096,
        elems = [- 9223372036854775808, 9223372036854775807]\<rparr>, sw_mode = SPLIT_MODE\<rparr> 0
     = Inr 0"
  by (simp add: operator_index_def vec_at_def vec_index_def vec_size_def duration_cast_def
      int64_wrap_def SPLIT_MODE_def signed_take_bit_eq_take_bit_shift take_bit_eq_mod
      signed_divide_int_def)

lemma representation_narrows:
  "operator_index (Unsigned 64) \<lparr>cf_num = 1, cf_den = 1, rep_bits = 32\<rparr>
     \<lparr>measurements = \<lparr>data_ptr = 4096, elems = [0, 3000000000]\<rparr>, sw_mode = SPLIT_MODE\<rparr> 0
     = Inr (- 1294967296)"
  by (simp add: operator_index_def vec_at_def vec_index_def vec_size_def duration_cast_def
      int64_wrap_def SPLIT_MODE_def signed_take_bit_eq_take_bit_shift take_bit_eq_mod
      signed_divide_int_def)

lemma product_wraps:
  "operator_index (Unsigned 64) \<lparr>cf_num = 1000000, cf_den = 1, rep_bits = 64\<rparr>
     \<lparr>measurements = \<lparr>data_ptr = 4096, elems = [0, 10800000000000]\<rparr>, sw_mode = SPLIT_MODE\<rparr> 0
     = Inr (- 7646744073709551616)"
  by (simp add: operator_index_def vec_at_def vec_index_def vec_size_def duration_cast_def
      int64_wrap_def SPLIT_MODE_def signed_take_bit_eq_take_bit_shift take_bit_eq_mod
      signed_divide_int_def)

lemma index_wraps_in_its_type:
  "operator_index (Unsigned 64) \<lparr>cf_num = 1, cf_den = 1000000, rep_bits = 64\<rparr>
     \<lparr>measurements = \<lparr>data_ptr = 4096, elems = [5000000]\<rparr>, sw_mode = ELAPSE_MODE\<rparr>
     18446744073709551615 = Inr 0 \<and>
   operator_index (Unsigned 32) \<lparr>cf_num = 1, cf_den = 1000000, rep_bits = 64\<rparr>
     \<lparr>measurements = \<lparr>data_ptr = 4096, elems = [5000000]\<rparr>, sw_mode = ELAPSE_MODE\<rparr> 4294967295
     = Inr 0 \<and>
   operator_index (Unsigned 64) \<lparr>cf_num = 1, cf_den = 1000000, rep_bits = 64\<rparr>
     \<lparr>measurements = \<lparr>data_ptr = 4096, elems = [5000000]\<rparr>, sw_mode = ELAPSE_MODE\<rparr> 4294967295
     = Inl OutOfRange \<and>
   operator_index (Unsigned 16) \<lparr>cf_num = 1, cf_den = 1000000, rep_bits = 64\<rparr>
     \<lparr>measurements = \<lparr>data_ptr = 4096, elems = [5000000]\<rparr>, sw_mode = ELAPSE_MODE\<rparr> 65535
     = Inl OutOfRange"
  by (simp add: operator_index_def vec_at_def vec_index_def vec_front_def vec_size_def
      duration_cast_def int64_wrap_def ELAPSE_MODE_def SPLIT_MODE_def
      signed_take_bit_eq_take_bit_shift take_bit_eq_mod)

lemma data_at_out_of_range:
  "(data_at sw i = Inl OutOfRange \<longleftrightarrow> \<not> unat i < data_size sw) \<and>
   (unat i < data_size sw \<longleftrightarrow> data_at sw i = Inr (elems (measurements sw) ! unat i))"
  by (simp add: data_at_def vec_at_def data_size_def)

lemma operator_index_out_of_range:
  "operator_index T cf sw i = Inl OutOfRange \<longleftrightarrow>
     \<not> unat (word_of_int (wrap (promote T) (i + 1)) :: size_t) < data_size sw"
  by (auto simp add: operator_index_def vec_at_def vec_index_def vec_front_def data_size_def
      vec_size_def split: sum.splits list.splits if_splits)

text \<open>
  C2. The checked accessors are to throw \<^verbatim>\<open>std::out_of_range\<close> exactly for the indices
  outside their domain. \<^verbatim>\<open>data(index)\<close> does (\<open>data_at_out_of_range\<close>). \<^verbatim>\<open>operator[]\<close>
  does not: its bound check is \<^verbatim>\<open>measurements.at(index + 1)\<close> alone
  (\<open>operator_index_out_of_range\<close>), and at the \<^verbatim>\<open>int\<close> index \<open>-1\<close> the sum is \<open>0\<close>, which
  is in range as soon as one snapshot is recorded. In elapse mode the call then returns
  the duration from the first snapshot to itself, and in split mode it reads
  \<^verbatim>\<open>measurements[-1]\<close> unchecked. The stopwatch below has no duration (\<^verbatim>\<open>size()\<close> is
  \<open>0\<close>), yet nothing is thrown.
\<close>

theorem operator_index_minus_one:
  "operator_index (Signed 32) \<lparr>cf_num = 1, cf_den = 1000000, rep_bits = 64\<rparr>
     \<lparr>measurements = \<lparr>data_ptr = 4096, elems = [5000000]\<rparr>, sw_mode = ELAPSE_MODE\<rparr> (- 1)
     = Inr 0 \<and>
   size_sw \<lparr>measurements = \<lparr>data_ptr = 4096, elems = [5000000]\<rparr>, sw_mode = ELAPSE_MODE\<rparr> = 0 \<and>
   operator_index (Signed 32) \<lparr>cf_num = 1, cf_den = 1000000, rep_bits = 64\<rparr>
     \<lparr>measurements = \<lparr>data_ptr = 4096, elems = [5000000]\<rparr>, sw_mode = SPLIT_MODE\<rparr> (- 1)
     = Inl Undefined"
  by (simp add: operator_index_def vec_at_def vec_index_def vec_front_def vec_size_def size_sw_def
      duration_cast_def int64_wrap_def SPLIT_MODE_def ELAPSE_MODE_def unsigned_minus_1_eq_mask
      mask_eq_exp_minus_1)

subsection \<open>The storage of live stopwatches\<close>







lemma set_union_Nil_iff: "set_union xs ys = [] \<longleftrightarrow> xs = [] \<and> ys = []"
  by (induction xs ys rule: set_union.induct) auto









subsection \<open>Iterators\<close>




lemma same_base_comparisons:
  assumes "base it = base other"
  shows "(iter_eq it other \<longleftrightarrow> ptr it = ptr other) \<and>
         (iter_ne it other \<longleftrightarrow> ptr it \<noteq> ptr other) \<and>
         (iter_lt it other \<longleftrightarrow> ptr it < ptr other) \<and>
         (iter_le it other \<longleftrightarrow> ptr it \<le> ptr other) \<and>
         (iter_gt it other \<longleftrightarrow> ptr it > ptr other) \<and>
         (iter_ge it other \<longleftrightarrow> ptr it \<ge> base other)"
  using assms
  by (simp add: iter_eq_def iter_ne_def iter_lt_def iter_le_def iter_gt_def iter_ge_def)

text \<open>
  C4. On a common base every comparison operator is to compare the two positions.
  \<^verbatim>\<open>==\<close>, \<^verbatim>\<open><\<close>, \<^verbatim>\<open><=\<close> and \<^verbatim>\<open>>\<close> do (\<open>same_base_comparisons\<close>), but \<^verbatim>\<open>>=\<close> subtracts
  the other iterator's base, not its position, from this position. For a stopwatch with
  two snapshots \<^verbatim>\<open>begin() >= end()\<close> is true although \<^verbatim>\<open>begin()\<close> stands strictly
  before \<^verbatim>\<open>end()\<close> on the same base.
\<close>

theorem iter_ge_slip:
  "iter_ge
     (begin_sw \<lparr>measurements = \<lparr>data_ptr = 4096, elems = [0, 10]\<rparr>, sw_mode = SPLIT_MODE\<rparr>)
     (end_sw \<lparr>measurements = \<lparr>data_ptr = 4096, elems = [0, 10]\<rparr>, sw_mode = SPLIT_MODE\<rparr>) \<and>
   base (begin_sw \<lparr>measurements = \<lparr>data_ptr = 4096, elems = [0, 10]\<rparr>, sw_mode = SPLIT_MODE\<rparr>) =
   base (end_sw \<lparr>measurements = \<lparr>data_ptr = 4096, elems = [0, 10]\<rparr>, sw_mode = SPLIT_MODE\<rparr>) \<and>
   ptr (begin_sw \<lparr>measurements = \<lparr>data_ptr = 4096, elems = [0, 10]\<rparr>, sw_mode = SPLIT_MODE\<rparr>) <
   ptr (end_sw \<lparr>measurements = \<lparr>data_ptr = 4096, elems = [0, 10]\<rparr>, sw_mode = SPLIT_MODE\<rparr>)"
  by (simp add: iter_ge_def begin_sw_def end_sw_def vec_empty_def vec_size_def)

text \<open>
  C5. When a stopwatch has no duration (\<^verbatim>\<open>size()\<close> is \<open>0\<close>), \<^verbatim>\<open>begin()\<close> and \<^verbatim>\<open>end()\<close>
  are equal; with \<open>N \<ge> 1\<close> snapshots \<^verbatim>\<open>end() - begin()\<close> is \<open>N - 1\<close>.
\<close>

theorem begin_end_range:
  "(size_sw sw = 0 \<longrightarrow> iter_eq (begin_sw sw) (end_sw sw)) \<and>
   (1 \<le> data_size sw \<longrightarrow>
      iter_diff (end_sw sw) (begin_sw sw) = Inr (int (data_size sw) - 1))"
proof -
  have "iter_eq (begin_sw sw) (end_sw sw)" if "size_sw sw = 0"
  proof (cases "elems (measurements sw)")
    case Nil
    then show ?thesis
      by (simp add: iter_eq_def begin_sw_def end_sw_def vec_empty_def)
  next
    case (Cons x xs)
    with that have "xs = []"
      by (simp add: size_sw_def vec_size_def split: if_splits)
    with Cons show ?thesis
      by (simp add: iter_eq_def begin_sw_def end_sw_def vec_empty_def vec_size_def)
  qed
  moreover have "iter_diff (end_sw sw) (begin_sw sw) = Inr (int (data_size sw) - 1)"
    if "1 \<le> data_size sw"
  proof -
    from that have "elems (measurements sw) \<noteq> []"
      by (auto simp add: data_size_def vec_size_def)
    then show ?thesis
      by (simp add: iter_diff_def begin_sw_def end_sw_def vec_empty_def data_size_def Let_def)
  qed
  ultimately show ?thesis by blast
qed

theorem begin_end_range_witness:
  "size_sw (Stopwatch 4096 SPLIT_MODE) = 0 \<and>
   iter_eq (begin_sw (Stopwatch 4096 SPLIT_MODE)) (end_sw (Stopwatch 4096 SPLIT_MODE)) \<and>
   1 \<le> data_size (run (Stopwatch 4096 SPLIT_MODE)
          [Record 4096 0, Record 4096 10, Record 8192 25]) \<and>
   iter_diff
     (end_sw (run (Stopwatch 4096 SPLIT_MODE) [Record 4096 0, Record 4096 10, Record 8192 25]))
     (begin_sw (run (Stopwatch 4096 SPLIT_MODE) [Record 4096 0, Record 4096 10, Record 8192 25]))
     = Inr 2"
  using begin_end_range [of "Stopwatch 4096 SPLIT_MODE"]
    begin_end_range [of "run (Stopwatch 4096 SPLIT_MODE)
      [Record 4096 0, Record 4096 10, Record 8192 25]"]
  by (simp add: Stopwatch_def size_sw_def vec_size_def data_size_def run_def record_sw_def
      vec_emplace_back_def)

text \<open>
  C10. When the bases of two iterators differ, \<^verbatim>\<open>==\<close>, \<^verbatim>\<open><\<close>, \<^verbatim>\<open><=\<close> and \<^verbatim>\<open>>\<close> are
  false and \<^verbatim>\<open>!=\<close> is true, whatever the positions. The operators are \<^verbatim>\<open>noexcept\<close> and
  return a \<open>bool\<close>; none of them has a failing branch.
\<close>

theorem cross_container_comparisons:
  assumes "base it \<noteq> base other"
  shows "\<not> iter_eq it other \<and> \<not> iter_lt it other \<and> \<not> iter_le it other \<and>
         \<not> iter_gt it other \<and> iter_ne it other"
  using assms by (simp add: iter_eq_def iter_lt_def iter_le_def iter_gt_def iter_ne_def)

theorem cross_container_comparisons_witness:
  "base (begin_sw (Stopwatch 4096 SPLIT_MODE)) \<noteq> base (end_sw (Stopwatch 8192 SPLIT_MODE)) \<and>
   ptr (begin_sw (Stopwatch 4096 SPLIT_MODE)) < ptr (end_sw (Stopwatch 8192 SPLIT_MODE)) \<and>
   \<not> iter_lt (begin_sw (Stopwatch 4096 SPLIT_MODE)) (end_sw (Stopwatch 8192 SPLIT_MODE)) \<and>
   \<not> iter_le (begin_sw (Stopwatch 4096 SPLIT_MODE)) (end_sw (Stopwatch 8192 SPLIT_MODE)) \<and>
   \<not> iter_eq (begin_sw (Stopwatch 4096 SPLIT_MODE)) (end_sw (Stopwatch 8192 SPLIT_MODE)) \<and>
   \<not> iter_gt (end_sw (Stopwatch 8192 SPLIT_MODE)) (begin_sw (Stopwatch 4096 SPLIT_MODE)) \<and>
   iter_ne (begin_sw (Stopwatch 4096 SPLIT_MODE)) (end_sw (Stopwatch 8192 SPLIT_MODE))"
  using cross_container_comparisons [of "begin_sw (Stopwatch 4096 SPLIT_MODE)"
      "end_sw (Stopwatch 8192 SPLIT_MODE)"]
    cross_container_comparisons [of "end_sw (Stopwatch 8192 SPLIT_MODE)"
      "begin_sw (Stopwatch 4096 SPLIT_MODE)"]
  by (simp add: begin_sw_def end_sw_def Stopwatch_def vec_empty_def)

subsection \<open>The union of two sorted snapshot lists\<close>

lemma set_union_same: "set_union xs xs = xs"
  by (induction xs) simp_all

lemma set_set_union: "set (set_union xs ys) = set xs \<union> set ys"
  by (induction xs ys rule: set_union.induct) auto

lemma length_set_union: "length (set_union xs ys) \<le> length xs + length ys"
  by (induction xs ys rule: set_union.induct) auto

lemma sorted_set_union: "sorted xs \<Longrightarrow> sorted ys \<Longrightarrow> sorted (set_union xs ys)"
  by (induction xs ys rule: set_union.induct) (auto simp: set_set_union)

lemma mset_set_union:
  "sorted xs \<Longrightarrow> sorted ys \<Longrightarrow> mset (set_union xs ys) = mset xs \<union># mset ys"
proof (induction xs ys rule: set_union.induct)
  case (1 ys)
  then show ?case by simp
next
  case (2 v va)
  then show ?case by simp
next
  case (3 x xs y ys)
  from "3.prems" have sx: "sorted xs" and sy: "sorted ys" by simp_all
  show ?case
  proof (cases "x < y")
    case True
    with "3.prems" have "x \<notin> set (y # ys)" by auto
    then have notin: "x \<notin># mset (y # ys)" by simp
    have "mset (set_union (x # xs) (y # ys)) = add_mset x (mset (set_union xs (y # ys)))"
      using True by simp
    also have "\<dots> = add_mset x (mset xs \<union># mset (y # ys))"
      using "3.IH"(1) [OF True sx "3.prems"(2)] by simp
    also have "\<dots> = add_mset x (mset xs) \<union># mset (y # ys)"
      using notin by (rule sup_union_left1 [symmetric])
    finally show ?thesis by simp
  next
    case False
    note nlt = this
    show ?thesis
    proof (cases "y < x")
      case True
      with "3.prems" have "y \<notin> set (x # xs)" by auto
      then have notin: "y \<notin># mset (x # xs)" by simp
      have "mset (set_union (x # xs) (y # ys)) = add_mset y (mset (set_union (x # xs) ys))"
        using True nlt by simp
      also have "\<dots> = add_mset y (mset (x # xs) \<union># mset ys)"
        using "3.IH"(2) [OF nlt True "3.prems"(1) sy] by simp
      also have "\<dots> = mset (x # xs) \<union># add_mset y (mset ys)"
        using notin by (rule sup_union_right1 [symmetric])
      finally show ?thesis by simp
    next
      case False
      with nlt have xy: "x = y" by simp
      have "mset (set_union (x # xs) (y # ys)) = add_mset x (mset (set_union xs ys))"
        using False nlt by simp
      also have "\<dots> = add_mset x (mset xs \<union># mset ys)"
        using "3.IH"(3) [OF nlt False sx sy] by simp
      also have "\<dots> = add_mset x (mset xs) \<union># add_mset x (mset ys)"
        by (simp add: multiset_eq_iff)
      finally show ?thesis using xy by simp
    qed
  qed
qed

lemma distinct_set_union:
  "sorted xs \<Longrightarrow> distinct xs \<Longrightarrow> sorted ys \<Longrightarrow> distinct ys \<Longrightarrow> distinct (set_union xs ys)"
  by (induction xs ys rule: set_union.induct) (auto simp: set_set_union)

lemma sorted_mset_unique:
  fixes xs ys :: "int list"
  assumes "sorted xs" "sorted ys" "mset xs = mset ys"
  shows "xs = ys"
proof -
  have "sort xs = ys" using assms by (intro properties_for_sort) simp_all
  moreover have "sort xs = xs" using assms(1) by (simp add: sort_key_id_if_sorted)
  ultimately show ?thesis by simp
qed

lemma set_union_absorb:
  assumes "sorted xs" "sorted ys"
  shows "set_union ys (set_union xs ys) = set_union xs ys"
proof (rule sorted_mset_unique)
  show "sorted (set_union ys (set_union xs ys))"
    using assms by (simp add: sorted_set_union)
  show "sorted (set_union xs ys)" using assms by (simp add: sorted_set_union)
  have "mset (set_union ys (set_union xs ys)) = mset ys \<union># (mset xs \<union># mset ys)"
    using assms by (simp add: mset_set_union sorted_set_union)
  also have "\<dots> = mset xs \<union># mset ys"
    by (simp add: multiset_eq_iff)
  finally show "mset (set_union ys (set_union xs ys)) = mset (set_union xs ys)"
    using assms by (simp add: mset_set_union)
qed

lemma set_union_strict:
  assumes "sorted xs" "distinct xs" "sorted ys" "distinct ys"
  shows "set_union xs ys = sorted_list_of_set (set xs \<union> set ys)"
proof -
  have "sorted_list_of_set (set (set_union xs ys)) = set_union xs ys"
    using assms by (intro sorted_list_of_set.idem_if_sorted_distinct)
      (simp_all add: sorted_set_union distinct_set_union)
  then show ?thesis by (simp add: set_set_union)
qed

lemma elems_plus_assign:
  "elems (measurements (plus_assign p sw other)) =
     set_union (elems (measurements sw)) (elems (measurements other))"
  by (simp add: plus_assign_def)

lemma elems_plus_sw:
  "elems (measurements (plus_sw p1 p2 p3 sw other)) =
     set_union (elems (measurements sw)) (elems (measurements other))"
  by (simp add: plus_sw_def copy_sw_def plus_assign_def)

subsection \<open>Merging\<close>

text \<open>
  C6 as stated: merging two sorted snapshot lists gives their sorted set union, equal
  time points collapsed to one. This fails: \<^verbatim>\<open>std::set_union\<close> pairs an element of one
  range with an equal element of the other and keeps what is left unpaired, so a time
  point recorded twice by one stopwatch stays twice in the result. Merging the
  snapshots \<open>[7, 7]\<close> with an empty stopwatch gives \<open>[7, 7]\<close>, not the set union \<open>[7]\<close>.
\<close>

theorem merge_keeps_repeats:
  "sorted (elems (measurements \<lparr>measurements = \<lparr>data_ptr = 4096, elems = [7, 7]\<rparr>, sw_mode = SPLIT_MODE\<rparr>)) \<and>
   sorted (elems (measurements (Stopwatch 8192 SPLIT_MODE))) \<and>
   elems (measurements (plus_assign 12288
       \<lparr>measurements = \<lparr>data_ptr = 4096, elems = [7, 7]\<rparr>, sw_mode = SPLIT_MODE\<rparr>
       (Stopwatch 8192 SPLIT_MODE))) = [7, 7] \<and>
   elems (measurements (plus_assign 12288
       \<lparr>measurements = \<lparr>data_ptr = 4096, elems = [7, 7]\<rparr>, sw_mode = SPLIT_MODE\<rparr>
       (Stopwatch 8192 SPLIT_MODE))) \<noteq>
     sorted_list_of_set
       (set (elems (measurements \<lparr>measurements = \<lparr>data_ptr = 4096, elems = [7, 7]\<rparr>, sw_mode = SPLIT_MODE\<rparr>)) \<union>
        set (elems (measurements (Stopwatch 8192 SPLIT_MODE))))"
  by (simp add: plus_assign_def Stopwatch_def)

text \<open>
  C6, amended. For sorted snapshot lists, \<^verbatim>\<open>operator+\<close> and \<^verbatim>\<open>operator+=\<close> produce the
  same list; it is sorted, holds exactly the time points of both operands, and holds each
  time point as often as the operand that has it more often. Its length is at most the
  sum of both lengths. When neither operand repeats a time point, it is the sorted
  duplicate-free list of the set union.
\<close>

theorem merge_sorted_union:
  assumes "sorted (elems (measurements A))" and "sorted (elems (measurements B))"
  shows "elems (measurements (plus_sw p1 p2 p3 A B)) = elems (measurements (plus_assign p A B)) \<and>
    sorted (elems (measurements (plus_assign p A B))) \<and>
    set (elems (measurements (plus_assign p A B))) =
      set (elems (measurements A)) \<union> set (elems (measurements B)) \<and>
    mset (elems (measurements (plus_assign p A B))) =
      mset (elems (measurements A)) \<union># mset (elems (measurements B)) \<and>
    data_size (plus_assign p A B) \<le> data_size A + data_size B \<and>
    (distinct (elems (measurements A)) \<and> distinct (elems (measurements B)) \<longrightarrow>
       elems (measurements (plus_assign p A B)) =
         sorted_list_of_set (set (elems (measurements A)) \<union> set (elems (measurements B))))"
  using assms
  by (simp add: elems_plus_assign elems_plus_sw sorted_set_union set_set_union mset_set_union
      length_set_union set_union_strict data_size_def vec_size_def)

theorem merge_sorted_union_witness:
  "sorted (elems (measurements \<lparr>measurements = \<lparr>data_ptr = 4096, elems = [1, 3, 3, 5]\<rparr>,
     sw_mode = SPLIT_MODE\<rparr>)) \<and>
   sorted (elems (measurements \<lparr>measurements = \<lparr>data_ptr = 8192, elems = [2, 3, 5]\<rparr>,
     sw_mode = ELAPSE_MODE\<rparr>)) \<and>
   elems (measurements (plus_assign 12288
      \<lparr>measurements = \<lparr>data_ptr = 4096, elems = [1, 3, 3, 5]\<rparr>, sw_mode = SPLIT_MODE\<rparr>
      \<lparr>measurements = \<lparr>data_ptr = 8192, elems = [2, 3, 5]\<rparr>, sw_mode = ELAPSE_MODE\<rparr>))
     = [1, 2, 3, 3, 5] \<and>
   mset [1, 2, 3, 3, 5 :: int] = mset [1, 3, 3, 5] \<union># mset [2, 3, 5] \<and>
   distinct (elems (measurements \<lparr>measurements = \<lparr>data_ptr = 4096, elems = [1, 3, 5]\<rparr>,
     sw_mode = SPLIT_MODE\<rparr>)) \<and>
   distinct (elems (measurements \<lparr>measurements = \<lparr>data_ptr = 8192, elems = [2, 3]\<rparr>,
     sw_mode = ELAPSE_MODE\<rparr>)) \<and>
   sorted_list_of_set (set [1, 3, 5 :: int] \<union> set [2, 3]) = [1, 2, 3, 5]"
  using merge_sorted_union [of "\<lparr>measurements = \<lparr>data_ptr = 4096, elems = [1, 3, 3, 5]\<rparr>,
      sw_mode = SPLIT_MODE\<rparr>"
      "\<lparr>measurements = \<lparr>data_ptr = 8192, elems = [2, 3, 5]\<rparr>, sw_mode = ELAPSE_MODE\<rparr>"
      0 0 0 12288]
    merge_sorted_union [of "\<lparr>measurements = \<lparr>data_ptr = 4096, elems = [1, 3, 5]\<rparr>,
      sw_mode = SPLIT_MODE\<rparr>"
      "\<lparr>measurements = \<lparr>data_ptr = 8192, elems = [2, 3]\<rparr>, sw_mode = ELAPSE_MODE\<rparr>"
      0 0 0 12288]
  by (simp add: plus_assign_def)

lemma plus_at_value:
  assumes "t \<noteq> b"
  shows "fst (plus_at p1 p2 p3 t a b \<sigma>) = plus_sw p1 p2 p3 (\<sigma> a) (\<sigma> b)"
  using assms by (simp add: plus_at_def plus_sw_def plus_assign_at_def Let_def)

text \<open>
  C7. For sorted snapshot lists, after \<^verbatim>\<open>a += b\<close> and then \<^verbatim>\<open>b += a\<close> both objects hold
  the same snapshots, those of \<^verbatim>\<open>a + b\<close> on the original objects (its temporary \<open>t\<close> is
  an object other than \<open>b\<close>). The statement is about objects in a store and covers
  \<open>a = b\<close>.
\<close>

theorem mutual_merge_converges:
  assumes "sorted (elems (measurements (\<sigma> a)))" and "sorted (elems (measurements (\<sigma> b)))"
    and "t \<noteq> b"
  shows "elems (measurements (plus_assign_at q b a (plus_assign_at p a b \<sigma>) a)) =
           elems (measurements (plus_assign_at q b a (plus_assign_at p a b \<sigma>) b)) \<and>
         elems (measurements (plus_assign_at q b a (plus_assign_at p a b \<sigma>) a)) =
           elems (measurements (fst (plus_at p1 p2 p3 t a b \<sigma>)))"
proof (cases "a = b")
  case True
  then show ?thesis
    using assms(3)
    by (simp add: plus_assign_at_def plus_at_value elems_plus_assign elems_plus_sw
        set_union_same)
next
  case False
  then show ?thesis
    using assms
    by (simp add: plus_assign_at_def plus_at_value elems_plus_assign elems_plus_sw
        set_union_absorb)
qed

theorem mutual_merge_converges_witness:
  "sorted (elems (measurements (((\<lambda>_. Stopwatch 0 SPLIT_MODE)
      (0 := \<lparr>measurements = \<lparr>data_ptr = 4096, elems = [1, 3, 3, 5]\<rparr>, sw_mode = SPLIT_MODE\<rparr>,
       1 := \<lparr>measurements = \<lparr>data_ptr = 8192, elems = [2, 3, 5]\<rparr>, sw_mode = ELAPSE_MODE\<rparr>))
      0))) \<and>
   sorted (elems (measurements (((\<lambda>_. Stopwatch 0 SPLIT_MODE)
      (0 := \<lparr>measurements = \<lparr>data_ptr = 4096, elems = [1, 3, 3, 5]\<rparr>, sw_mode = SPLIT_MODE\<rparr>,
       1 := \<lparr>measurements = \<lparr>data_ptr = 8192, elems = [2, 3, 5]\<rparr>, sw_mode = ELAPSE_MODE\<rparr>))
      (Suc 0)))) \<and>
   (2 :: nat) \<noteq> Suc 0 \<and>
   elems (measurements (plus_assign_at 16384 (Suc 0) 0 (plus_assign_at 12288 0 (Suc 0)
      ((\<lambda>_. Stopwatch 0 SPLIT_MODE)
      (0 := \<lparr>measurements = \<lparr>data_ptr = 4096, elems = [1, 3, 3, 5]\<rparr>, sw_mode = SPLIT_MODE\<rparr>,
       1 := \<lparr>measurements = \<lparr>data_ptr = 8192, elems = [2, 3, 5]\<rparr>, sw_mode = ELAPSE_MODE\<rparr>)))
      (Suc 0)))
     = [1, 2, 3, 3, 5] \<and>
   elems (measurements (fst (plus_at 20480 24576 28672 2 0 (Suc 0)
      ((\<lambda>_. Stopwatch 0 SPLIT_MODE)
      (0 := \<lparr>measurements = \<lparr>data_ptr = 4096, elems = [1, 3, 3, 5]\<rparr>, sw_mode = SPLIT_MODE\<rparr>,
       1 := \<lparr>measurements = \<lparr>data_ptr = 8192, elems = [2, 3, 5]\<rparr>, sw_mode = ELAPSE_MODE\<rparr>)))))
     = [1, 2, 3, 3, 5]"
  using mutual_merge_converges [of "(\<lambda>_. Stopwatch 0 SPLIT_MODE)
      (0 := \<lparr>measurements = \<lparr>data_ptr = 4096, elems = [1, 3, 3, 5]\<rparr>, sw_mode = SPLIT_MODE\<rparr>,
       1 := \<lparr>measurements = \<lparr>data_ptr = 8192, elems = [2, 3, 5]\<rparr>, sw_mode = ELAPSE_MODE\<rparr>)"
      0 "Suc 0" 2 16384 12288 20480 24576 28672]
  by (simp add: plus_assign_at_def plus_assign_def plus_at_def copy_sw_def)

text \<open>
  C8. \<^verbatim>\<open>a + b\<close> returns a stopwatch in the mode of \<open>a\<close>; it writes to its temporary
  \<open>t\<close> only, so \<open>a\<close>, \<open>b\<close> and every other object keep their whole state.
  \<^verbatim>\<open>a += b\<close> keeps the mode of \<open>a\<close>, the snapshots and the mode of \<open>b\<close> (also when \<open>b\<close>
  is \<open>a\<close> itself: the union of a list with itself is that list, in new storage), and the
  whole state of every object other than \<open>a\<close>.
\<close>

theorem merge_frame:
  assumes "t \<noteq> a" and "t \<noteq> b"
  shows "sw_mode (fst (plus_at p1 p2 p3 t a b \<sigma>)) = sw_mode (\<sigma> a) \<and>
   snd (plus_at p1 p2 p3 t a b \<sigma>) a = \<sigma> a \<and>
   snd (plus_at p1 p2 p3 t a b \<sigma>) b = \<sigma> b \<and>
   (\<forall>c. c \<noteq> t \<longrightarrow> snd (plus_at p1 p2 p3 t a b \<sigma>) c = \<sigma> c) \<and>
   sw_mode (plus_assign_at p a b \<sigma> a) = sw_mode (\<sigma> a) \<and>
   elems (measurements (plus_assign_at p a b \<sigma> b)) = elems (measurements (\<sigma> b)) \<and>
   sw_mode (plus_assign_at p a b \<sigma> b) = sw_mode (\<sigma> b) \<and>
   (\<forall>c. c \<noteq> a \<longrightarrow> plus_assign_at p a b \<sigma> c = \<sigma> c)"
proof -
  have res: "sw_mode (fst (plus_at p1 p2 p3 t a b \<sigma>)) = sw_mode (\<sigma> a)"
    by (simp add: plus_at_def plus_assign_at_def plus_assign_def copy_sw_def Let_def)
  have frame: "snd (plus_at p1 p2 p3 t a b \<sigma>) c = \<sigma> c" if "c \<noteq> t" for c
    using that by (simp add: plus_at_def plus_assign_at_def Let_def)
  have recv: "sw_mode (plus_assign_at p a b \<sigma> a) = sw_mode (\<sigma> a)"
    by (simp add: plus_assign_at_def plus_assign_def)
  have arg: "elems (measurements (plus_assign_at p a b \<sigma> b)) = elems (measurements (\<sigma> b)) \<and>
      sw_mode (plus_assign_at p a b \<sigma> b) = sw_mode (\<sigma> b)"
    by (simp add: plus_assign_at_def plus_assign_def set_union_same)
  have others: "plus_assign_at p a b \<sigma> c = \<sigma> c" if "c \<noteq> a" for c
    using that by (simp add: plus_assign_at_def)
  from assms have "a \<noteq> t" and "b \<noteq> t" by simp_all
  with res frame recv arg others show ?thesis by simp
qed

theorem merge_frame_witness:
  "(2 :: nat) \<noteq> 0 \<and> (2 :: nat) \<noteq> Suc 0 \<and>
   sw_mode (fst (plus_at 20480 24576 28672 2 0 (Suc 0) ((\<lambda>_. Stopwatch 0 SPLIT_MODE)
      (0 := \<lparr>measurements = \<lparr>data_ptr = 4096, elems = [1, 3]\<rparr>, sw_mode = ELAPSE_MODE\<rparr>,
       1 := \<lparr>measurements = \<lparr>data_ptr = 8192, elems = [2, 3, 5]\<rparr>, sw_mode = SPLIT_MODE\<rparr>))))
     = ELAPSE_MODE \<and>
   snd (plus_at 20480 24576 28672 2 0 (Suc 0) ((\<lambda>_. Stopwatch 0 SPLIT_MODE)
      (0 := \<lparr>measurements = \<lparr>data_ptr = 4096, elems = [1, 3]\<rparr>, sw_mode = ELAPSE_MODE\<rparr>,
       1 := \<lparr>measurements = \<lparr>data_ptr = 8192, elems = [2, 3, 5]\<rparr>, sw_mode = SPLIT_MODE\<rparr>)))
      0 = \<lparr>measurements = \<lparr>data_ptr = 4096, elems = [1, 3]\<rparr>, sw_mode = ELAPSE_MODE\<rparr> \<and>
   plus_assign_at 12288 0 (Suc 0) ((\<lambda>_. Stopwatch 0 SPLIT_MODE)
      (0 := \<lparr>measurements = \<lparr>data_ptr = 4096, elems = [1, 3]\<rparr>, sw_mode = ELAPSE_MODE\<rparr>,
       1 := \<lparr>measurements = \<lparr>data_ptr = 8192, elems = [2, 3, 5]\<rparr>, sw_mode = SPLIT_MODE\<rparr>))
      (Suc 0) = \<lparr>measurements = \<lparr>data_ptr = 8192, elems = [2, 3, 5]\<rparr>, sw_mode = SPLIT_MODE\<rparr>"
  using merge_frame [of 2 0 "Suc 0" 20480 24576 28672 "(\<lambda>_. Stopwatch 0 SPLIT_MODE)
      (0 := \<lparr>measurements = \<lparr>data_ptr = 4096, elems = [1, 3]\<rparr>, sw_mode = ELAPSE_MODE\<rparr>,
       1 := \<lparr>measurements = \<lparr>data_ptr = 8192, elems = [2, 3, 5]\<rparr>, sw_mode = SPLIT_MODE\<rparr>)" 12288]
  by simp

subsection \<open>Size and emptiness\<close>

text \<open>
  C9. After any sequence of \<^verbatim>\<open>record\<close>, \<^verbatim>\<open>clear\<close>, \<^verbatim>\<open>mode\<close> and \<^verbatim>\<open>+=\<close> calls on any
  stopwatch, a newly constructed one included, \<^verbatim>\<open>size()\<close> is \<open>max (data_size() - 1) 0\<close>,
  and \<^verbatim>\<open>empty()\<close> holds exactly when fewer than two snapshots are recorded, which is
  exactly when \<^verbatim>\<open>size()\<close> is \<open>0\<close>.
\<close>

theorem size_and_empty:
  "int (size_sw (run sw ops)) = max (int (data_size (run sw ops)) - 1) 0 \<and>
   (empty_sw (run sw ops) \<longleftrightarrow> data_size (run sw ops) < 2) \<and>
   (empty_sw (run sw ops) \<longleftrightarrow> size_sw (run sw ops) = 0)"
  by (auto simp add: size_sw_def empty_sw_def data_size_def Let_def)

theorem size_and_empty_witness:
  "size_sw (run (Stopwatch 4096 ELAPSE_MODE)
      [Record 4096 3, Record 4096 8, Clear, Record 4096 11, SetMode SPLIT_MODE,
       MergeInto 8192 \<lparr>measurements = \<lparr>data_ptr = 12288, elems = [2, 11, 14]\<rparr>,
         sw_mode = ELAPSE_MODE\<rparr>]) = 2 \<and>
   data_size (run (Stopwatch 4096 ELAPSE_MODE)
      [Record 4096 3, Record 4096 8, Clear, Record 4096 11, SetMode SPLIT_MODE,
       MergeInto 8192 \<lparr>measurements = \<lparr>data_ptr = 12288, elems = [2, 11, 14]\<rparr>,
         sw_mode = ELAPSE_MODE\<rparr>]) = 3 \<and>
   \<not> empty_sw (run (Stopwatch 4096 ELAPSE_MODE)
      [Record 4096 3, Record 4096 8, Clear, Record 4096 11, SetMode SPLIT_MODE,
       MergeInto 8192 \<lparr>measurements = \<lparr>data_ptr = 12288, elems = [2, 11, 14]\<rparr>,
         sw_mode = ELAPSE_MODE\<rparr>])"
  using size_and_empty [of "Stopwatch 4096 ELAPSE_MODE"
      "[Record 4096 3, Record 4096 8, Clear, Record 4096 11, SetMode SPLIT_MODE,
       MergeInto 8192 \<lparr>measurements = \<lparr>data_ptr = 12288, elems = [2, 11, 14]\<rparr>,
         sw_mode = ELAPSE_MODE\<rparr>]"]
  by (simp add: run_def Stopwatch_def record_sw_def clear_sw_def set_mode_def plus_assign_def
      vec_emplace_back_def vec_clear_def data_size_def vec_size_def)

end
